theory Spec2Isabelle
  imports Complex_Main
begin

section \<open>Time-frequency CSP decoding: labels, per-subject task, group statistics\<close>

text \<open>
  The development follows \<^verbatim>\<open>scripts/sensor/_03b_time_frequency_csp.py\<close>.
  Library calls (MNE, scikit-learn, NumPy's generator) are not part of the script; they
  enter the model as parameters. Floating-point numbers are modelled as a real number
  or NaN; rounding and infinities are not modelled.
\<close>

subsection \<open>Log records\<close>

datatype level = INFO | WARNING | CRITICAL

datatype message =
    EventInBothSets int
  | EventInNoSet int
  | RunningDecoding
  | DecimatingBy int
  | ReducingTo100
  | NewRank nat
  | WindowInfo "real \<times> real" "real \<times> real"
  | RunningGroupAnalysis
  | JustOneSubject
  | ShapeMismatch string "string option"
  | NaNValuesFound string "string option"
  | PermutationsDone
  | FoundClusters "real list"
  | NotSignificant
  | SeemsSignificant

type_synonym log_record = "level \<times> message"

subsection \<open>Epochs and contrasts\<close>

text \<open>
  An epochs object carries one event code per trial (the third column of
  \<^verbatim>\<open>epochs.events\<close>), the resolution of a condition name to the event codes it
  selects, the sampling rate, the time extent and the trial data. Selecting by a condition
  name, \<^verbatim>\<open>epochs[name]\<close>, keeps the trials whose code the name selects.
\<close>

record 'x epochs =
  events :: "int list"
  event_id :: "string \<Rightarrow> int list"
  sfreq :: real
  tmin :: real
  tmax :: real
  signal :: 'x

type_synonym contrast = "string \<times> string"

definition selected :: "'x epochs \<Rightarrow> string \<Rightarrow> int list" where
  "selected ep name = filter (\<lambda>e. e \<in> set (event_id ep name)) (events ep)"

subsection \<open>\<^verbatim>\<open>prepare_labels\<close>\<close>

text \<open>
  The loop over \<^verbatim>\<open>range(len(y))\<close> visits every position once and reads the code at that
  position before it writes the label, so it is a traversal of the event codes. The two
  critical branches only log: the entry of \<^verbatim>\<open>y\<close> stays the raw event code.
\<close>

fun label_loop :: "int set \<Rightarrow> int set \<Rightarrow> int list \<Rightarrow> log_record list \<times> int list" where
  "label_loop c0 c1 [] = ([], [])"
| "label_loop c0 c1 (y # ys) =
     (let (lg, ls) = label_loop c0 c1 ys in
      if y \<in> c0 \<and> y \<in> c1 then ((CRITICAL, EventInBothSets y) # lg, y # ls)
      else if y \<in> c0 then (lg, 0 # ls)
      else if y \<in> c1 then (lg, 1 # ls)
      else ((CRITICAL, EventInNoSet y) # lg, y # ls))"

definition prepare_labels :: "'x epochs \<Rightarrow> contrast \<Rightarrow> log_record list \<times> int list" where
  "prepare_labels ep contrast =
     (let event_id_condition_0 = set (selected ep (fst contrast));
          event_id_condition_1 = set (selected ep (snd contrast))
      in label_loop event_id_condition_0 event_id_condition_1 (events ep))"

subsection \<open>Floating-point values and NumPy reductions\<close>

datatype npfloat = NaN | Fin real

fun finite_values :: "npfloat list \<Rightarrow> real list" where
  "finite_values [] = []"
| "finite_values (NaN # xs) = finite_values xs"
| "finite_values (Fin r # xs) = r # finite_values xs"

definition mean_real :: "real list \<Rightarrow> real" where
  "mean_real rs = sum_list rs / real (length rs)"

text \<open>\<^verbatim>\<open>np.mean\<close>: NaN for an empty array and whenever an entry is NaN.\<close>

definition np_mean :: "npfloat list \<Rightarrow> npfloat" where
  "np_mean xs =
     (if xs = [] \<or> NaN \<in> set xs then NaN else Fin (mean_real (finite_values xs)))"

text \<open>\<^verbatim>\<open>np.nanmean\<close>: the mean of the entries that are not NaN; NaN when there is none.\<close>

definition np_nanmean :: "npfloat list \<Rightarrow> npfloat" where
  "np_nanmean xs =
     (let rs = finite_values xs in if rs = [] then NaN else Fin (mean_real rs))"

text \<open>
  \<^verbatim>\<open>np.std\<close> with \<^verbatim>\<open>ddof\<close> delta degrees of freedom: NaN when an entry is NaN or
  when no degree of freedom is left.
\<close>

definition np_std :: "nat \<Rightarrow> npfloat list \<Rightarrow> npfloat" where
  "np_std ddof xs =
     (if NaN \<in> set xs \<or> length xs \<le> ddof then NaN
      else let rs = finite_values xs; m = mean_real rs
           in Fin (sqrt (sum_list (map (\<lambda>r. (r - m)\<^sup>2) rs) / real (length rs - ddof))))"

subsection \<open>The frequency/time grid\<close>

text \<open>
  Modelled from the spec: the class \<^verbatim>\<open>Tf\<close> of the pipeline's configuration module is
  not part of the script. Section 4.1 gives the windows as the pairs of consecutive edges
  and a bounds check that fails when a requested time lies outside the epochs' extent.
\<close>

record tf =
  freqs :: "real list"
  times :: "real list"

definition freq_ranges :: "tf \<Rightarrow> (real \<times> real) list" where
  "freq_ranges t = zip (butlast (freqs t)) (tl (freqs t))"

definition time_ranges :: "tf \<Rightarrow> (real \<times> real) list" where
  "time_ranges t = zip (butlast (times t)) (tl (times t))"

definition n_freq_windows :: "tf \<Rightarrow> nat" where
  "n_freq_windows t = length (freqs t) - 1"

definition n_time_windows :: "tf \<Rightarrow> nat" where
  "n_time_windows t = length (times t) - 1"

datatype exn =
    GridBoundsError | IndexError | ZeroDivisionError | ValueError

definition check_csp_times :: "tf \<Rightarrow> 'x epochs \<Rightarrow> exn + unit" where
  "check_csp_times t ep =
     (if list_all (\<lambda>w. tmin ep \<le> w \<and> w \<le> tmax ep) (times t) then Inr ()
      else Inl GridBoundsError)"

subsection \<open>Library operations and configuration\<close>

text \<open>
  The operations of MNE and scikit-learn that the task calls, on trial data \<open>'x\<close> and a
  fitted PCA basis \<open>'b\<close>.
\<close>

record ('x, 'b) library =
  lib_decimate :: "int \<Rightarrow> 'x \<Rightarrow> 'x"
  lib_pick_types :: "bool \<Rightarrow> 'x \<Rightarrow> 'x"
  lib_select :: "bool list \<Rightarrow> 'x \<Rightarrow> 'x"
  lib_filter :: "real \<Rightarrow> real \<Rightarrow> 'x \<Rightarrow> 'x"
  lib_crop :: "real \<Rightarrow> real \<Rightarrow> 'x \<Rightarrow> 'x"
  lib_compute_rank :: "'x \<Rightarrow> (string \<times> nat) list"
  pca_fit :: "nat \<Rightarrow> 'x \<Rightarrow> 'b"
  pca_apply :: "'b \<Rightarrow> 'x \<Rightarrow> 'x"
  cross_val_score :: "'x \<Rightarrow> int list \<Rightarrow> npfloat list"

record cfg =
  datatype_meg :: bool
  csp_quick :: bool
  random_state :: "int option"
  n_boot :: nat
  n_permutations :: nat
  cluster_t_dist_alpha_thres :: real
  cluster_stats_alpha :: real

subsection \<open>\<^verbatim>\<open>prepare_epochs_and_y\<close>\<close>

definition in_contrast :: "'x epochs \<Rightarrow> contrast \<Rightarrow> int \<Rightarrow> bool" where
  "in_contrast ep c e \<longleftrightarrow>
     e \<in> set (event_id ep (fst c)) \<or> e \<in> set (event_id ep (snd c))"

definition prepare_epochs_and_y ::
  "('x, 'b) library \<Rightarrow> cfg \<Rightarrow> 'x epochs \<Rightarrow> contrast \<Rightarrow> real \<Rightarrow> real
     \<Rightarrow> log_record list \<times> 'x epochs \<times> int list" where
  "prepare_epochs_and_y lib c ep contrast fmin fmax =
     (let picked = lib_pick_types lib (datatype_meg c) (signal ep);
          keep = map (in_contrast ep contrast) (events ep);
          epochs_filter = ep\<lparr>events := filter (in_contrast ep contrast) (events ep),
                             signal := lib_filter lib fmin fmax (lib_select lib keep picked)\<rparr>;
          (lg, y) = prepare_labels epochs_filter contrast
      in (lg, epochs_filter, y))"

subsection \<open>\<^verbatim>\<open>one_subject_decoding\<close>\<close>

text \<open>
  The task is modelled with the record of the calls it makes, in order, next to the
  score arrays it saves.
\<close>

datatype ('x, 'b) action =
    Logged log_record
  | Decimate int
  | PcaFitTransform nat 'x
  | PcaTransform 'b 'x
  | CrossValScore 'x "int list"
  | CspFit 'x "int list"

record score_artifact =
  freq_scores :: "npfloat list"
  freq_scores_std :: "npfloat list"
  tf_scores :: "npfloat list list"

text \<open>\<^verbatim>\<open>int(x)\<close> on a float truncates towards zero.\<close>

definition py_int :: "real \<Rightarrow> int" where
  "py_int x = (if 0 \<le> x then \<lfloor>x\<rfloor> else \<lceil>x\<rceil>)"

fun time_loop ::
  "('x, 'b) library \<Rightarrow> 'b \<Rightarrow> 'x \<Rightarrow> int list \<Rightarrow> real \<times> real \<Rightarrow> (real \<times> real) list
     \<Rightarrow> ('x, 'b) action list \<times> npfloat list" where
  "time_loop lib pca Xf y band [] = ([], [])"
| "time_loop lib pca Xf y band ((w_tmin, w_tmax) # ws) =
     (let X = lib_crop lib w_tmin w_tmax Xf;
          X_pca = pca_apply lib pca X;
          cv_scores = cross_val_score lib X_pca y;
          (tr, row) = time_loop lib pca Xf y band ws
      in (Logged (INFO, WindowInfo band (w_tmin, w_tmax)) # PcaTransform pca X
            # CrossValScore X_pca y # CspFit X y # tr,
          np_mean cv_scores # row))"

fun freq_loop ::
  "('x, 'b) library \<Rightarrow> cfg \<Rightarrow> nat \<Rightarrow> 'x epochs \<Rightarrow> contrast \<Rightarrow> (real \<times> real) list
     \<Rightarrow> (real \<times> real) list \<Rightarrow> ('x, 'b) action list \<times> score_artifact" where
  "freq_loop lib c rank ep contrast tws [] =
     ([], \<lparr>freq_scores = [], freq_scores_std = [], tf_scores = []\<rparr>)"
| "freq_loop lib c rank ep contrast tws ((fmin, fmax) # fws) =
     (let (lg, epochs_filter, y) = prepare_epochs_and_y lib c ep contrast fmin fmax;
          X = signal epochs_filter;
          pca = pca_fit lib rank X;
          X_pca = pca_apply lib pca X;
          cv_scores = cross_val_score lib X_pca y;
          (tr_t, row) = time_loop lib pca X y (fmin, fmax) tws;
          (tr, art) = freq_loop lib c rank ep contrast tws fws
      in (map Logged lg @ PcaFitTransform rank X # CrossValScore X_pca y # tr_t @ tr,
          \<lparr>freq_scores = np_mean cv_scores # freq_scores art,
           freq_scores_std = np_std 0 cv_scores # freq_scores_std art,
           tf_scores = row # tf_scores art\<rparr>))"

definition decimation_needed :: "'x epochs \<Rightarrow> tf \<Rightarrow> real" where
  "decimation_needed ep t = sfreq ep / (3 * last (freqs t))"

definition decimate_step ::
  "('x, 'b) library \<Rightarrow> cfg \<Rightarrow> tf \<Rightarrow> 'x epochs \<Rightarrow> ('x, 'b) action list \<times> 'x epochs" where
  "decimate_step lib c t ep =
     (if decimation_needed ep t > 2 \<and> csp_quick c
      then (let k = py_int (decimation_needed ep t)
            in ([Decimate k, Logged (INFO, DecimatingBy k)],
                ep\<lparr>sfreq := sfreq ep / real_of_int k,
                   signal := lib_decimate lib k (signal ep)\<rparr>))
      else ([], ep))"

definition choose_rank :: "(string \<times> nat) list \<Rightarrow> ('x, 'b) action list \<times> nat" where
  "choose_rank rank_dic =
     (let rank = fold min (map snd (tl rank_dic)) (snd (hd rank_dic)) in
      if rank > 100
      then ([Logged (INFO, ReducingTo100), Logged (INFO, NewRank 100)], 100)
      else ([Logged (INFO, NewRank rank)], rank))"

definition one_subject_decoding ::
  "('x, 'b) library \<Rightarrow> cfg \<Rightarrow> tf \<Rightarrow> 'x epochs \<Rightarrow> contrast
     \<Rightarrow> exn + ('x, 'b) action list \<times> score_artifact" where
  "one_subject_decoding lib c t ep contrast =
     (case check_csp_times t ep of
        Inl e \<Rightarrow> Inl e
      | Inr _ \<Rightarrow>
          if freqs t = [] then Inl IndexError
          else if last (freqs t) = 0 then Inl ZeroDivisionError
          else
            let (tr_d, epochs1) = decimate_step lib c t ep;
                rank_dic = lib_compute_rank lib (signal epochs1)
            in if rank_dic = [] then Inl ValueError
               else
                 let (tr_r, rank) = choose_rank rank_dic;
                     (tr, art) = freq_loop lib c rank epochs1 contrast
                                   (time_ranges t) (freq_ranges t)
                 in Inr (Logged (INFO, RunningDecoding) # tr_d @ tr_r @ tr, art))"

subsection \<open>More NumPy reductions\<close>

text \<open>The minimum and the maximum of an array propagate NaN.\<close>

definition np_min :: "npfloat list \<Rightarrow> npfloat" where
  "np_min xs = (if NaN \<in> set xs then NaN else Fin (Min (set (finite_values xs))))"

definition np_max :: "npfloat list \<Rightarrow> npfloat" where
  "np_max xs = (if NaN \<in> set xs then NaN else Fin (Max (set (finite_values xs))))"

text \<open>
  \<^verbatim>\<open>np.quantile\<close> with its default, linear interpolation between the two order
  statistics around the position \<open>q (n - 1)\<close>. NaN propagates; the value for an empty
  array is taken to be NaN as well, and nothing below rests on it.
\<close>

definition interpolate :: "real list \<Rightarrow> real \<Rightarrow> real" where
  "interpolate s h =
     (let lo = nat \<lfloor>h\<rfloor>; hi = min (lo + 1) (length s - 1)
      in s ! lo + (h - real lo) * (s ! hi - s ! lo))"

definition np_quantile :: "npfloat list \<Rightarrow> real \<Rightarrow> npfloat" where
  "np_quantile xs q =
     (if xs = [] \<or> NaN \<in> set xs then NaN
      else let s = sort (finite_values xs) in Fin (interpolate s (q * real (length s - 1))))"


fun float_sub :: "npfloat \<Rightarrow> real \<Rightarrow> npfloat" where
  "float_sub (Fin a) c = Fin (a - c)"
| "float_sub NaN c = NaN"

subsection \<open>Persisted score arrays and \<^verbatim>\<open>load_and_average\<close>\<close>

text \<open>
  An array is its shape and its entries in row-major order. \<^verbatim>\<open>np.load\<close> of the path of a
  subject and session is a parameter; \<open>None\<close> stands for \<^verbatim>\<open>FileNotFoundError\<close>.
\<close>

record ndarray =
  arr_shape :: "nat list"
  arr_data :: "npfloat list"

type_synonym session = "string option"

type_synonym loader = "string \<Rightarrow> session \<Rightarrow> ndarray option"

definition full_nan :: "nat list \<Rightarrow> ndarray" where
  "full_nan sh = \<lparr>arr_shape = sh, arr_data = replicate (prod_list sh) NaN\<rparr>"

text \<open>
  One pass of the loop body: the \<^verbatim>\<open>try\<close> block, whose shape check re-raises
  \<^verbatim>\<open>FileNotFoundError\<close> after its warning, the handler that fills in NaN, and the check
  for NaN values.
\<close>

definition load_one :: "loader \<Rightarrow> nat list \<Rightarrow> string \<Rightarrow> session \<Rightarrow> log_record list \<times> ndarray" where
  "load_one np_load sh sub ses =
     (let (lg, arr) =
            (case np_load sub ses of
               None \<Rightarrow> ([], full_nan sh)
             | Some a \<Rightarrow>
                 if arr_shape a \<noteq> sh then ([(WARNING, ShapeMismatch sub ses)], full_nan sh)
                 else ([], a))
      in (lg @ (if NaN \<in> set (arr_data arr) then [(WARNING, NaNValuesFound sub ses)] else []),
          arr))"

fun load_loop ::
  "loader \<Rightarrow> nat list \<Rightarrow> (string \<times> session) list \<Rightarrow> log_record list \<times> npfloat list list" where
  "load_loop np_load sh [] = ([], [])"
| "load_loop np_load sh ((sub, ses) # rest) =
     (let (lg1, arr) = load_one np_load sh sub ses;
          (lg, res) = load_loop np_load sh rest
      in (lg1 @ lg, arr_data arr # res))"

definition np_nanmean_axis0 :: "nat \<Rightarrow> npfloat list list \<Rightarrow> npfloat list" where
  "np_nanmean_axis0 n res = map (\<lambda>j. np_nanmean (map (\<lambda>r. r ! j) res)) [0..<n]"

text \<open>
  The flag \<^verbatim>\<open>average\<close> selects between two kinds of result, so the function is modelled
  twice: \<open>load_and_stack\<close> is \<^verbatim>\<open>load_and_average\<close> with \<^verbatim>\<open>average=False\<close> (one row
  per subject and session, each the entries of that slot), \<open>load_and_average\<close> is the
  default \<^verbatim>\<open>average=True\<close>. The sessions are a list, as \<^verbatim>\<open>itertools.product\<close> takes it.
\<close>

definition load_and_stack ::
  "loader \<Rightarrow> string list \<Rightarrow> session list \<Rightarrow> nat list \<Rightarrow> log_record list \<times> npfloat list list" where
  "load_and_stack np_load subjects sessions sh =
     load_loop np_load sh (List.product subjects sessions)"

definition load_and_average ::
  "loader \<Rightarrow> string list \<Rightarrow> session list \<Rightarrow> nat list \<Rightarrow> log_record list \<times> npfloat list" where
  "load_and_average np_load subjects sessions sh =
     (let (lg, res) = load_and_stack np_load subjects sessions sh
      in (lg, np_nanmean_axis0 (prod_list sh) res))"


subsection \<open>Random numbers and statistics of the libraries\<close>

text \<open>
  A generator state is a value of type \<open>'g\<close>. What a run does not set itself is an input
  of the model: the entropy of the operating system, which seeds a generator made with no
  seed, and NumPy's global generator, from which a library call that is given no seed
  draws.
\<close>

record 'g ambient =
  os_entropy :: 'g
  global_rng :: 'g

record 'g stats_library =
  seeded_rng :: "int \<Rightarrow> 'g"
  rng_choice :: "'g \<Rightarrow> npfloat list \<Rightarrow> nat \<Rightarrow> nat \<Rightarrow> npfloat list list \<times> 'g"
  ttest_1samp :: "npfloat list list \<Rightarrow> npfloat list \<times> npfloat list"
  t_ppf :: "real \<Rightarrow> int \<Rightarrow> real"
  permutation_cluster_1samp_test ::
    "'g \<Rightarrow> npfloat list list \<Rightarrow> real \<Rightarrow> nat \<Rightarrow> npfloat list \<times> bool list list \<times> real list"

definition default_rng :: "'g stats_library \<Rightarrow> 'g ambient \<Rightarrow> int option \<Rightarrow> 'g" where
  "default_rng lib amb seed =
     (case seed of None \<Rightarrow> os_entropy amb | Some s \<Rightarrow> seeded_rng lib s)"


subsection \<open>\<^verbatim>\<open>compute_conf_inter\<close>\<close>

record contrast_score_stats =
  cond_1 :: string
  cond_2 :: string
  stats_times :: "real list"
  N :: nat
  mean :: "npfloat list"
  mean_min :: "npfloat list"
  mean_max :: "npfloat list"
  mean_se :: "npfloat list"
  mean_ci_lower :: "npfloat list"
  mean_ci_upper :: "npfloat list"

text \<open>\<^verbatim>\<open>mean_scores[:, j]\<close> for every frequency bin \<open>j\<close>.\<close>

definition columns :: "nat \<Rightarrow> npfloat list list \<Rightarrow> npfloat list list" where
  "columns n mean_scores = map (\<lambda>j. map (\<lambda>r. r ! j) mean_scores) [0..<n]"

text \<open>The loop over the frequency bins: the generator is used by one bin after the other.\<close>

fun boot_loop ::
  "'g stats_library \<Rightarrow> nat \<Rightarrow> nat \<Rightarrow> 'g \<Rightarrow> npfloat list list
     \<Rightarrow> (npfloat \<times> npfloat \<times> npfloat) list" where
  "boot_loop lib nb n rng [] = []"
| "boot_loop lib nb n rng (col # cols) =
     (let (scores_resampled, rng') = rng_choice lib rng col nb n;
          bootstrapped_means = map np_mean scores_resampled;
          se = np_std 1 bootstrapped_means;
          ci_lower = np_quantile bootstrapped_means (25 / 1000);
          ci_upper = np_quantile bootstrapped_means (975 / 1000)
      in (se, ci_lower, ci_upper) # boot_loop lib nb n rng' cols)"


text \<open>
  The arrays of the result have \<open>n_freq_windows\<close> entries: a matrix of scores with another
  number of columns, or with no row, makes an assignment, an index or the minimum raise;
  the model has one error for these. The printed output is not modelled.
\<close>

definition compute_conf_inter ::
  "'g stats_library \<Rightarrow> 'g ambient \<Rightarrow> cfg \<Rightarrow> tf \<Rightarrow> contrast \<Rightarrow> string list
     \<Rightarrow> npfloat list list \<Rightarrow> exn + contrast_score_stats" where
  "compute_conf_inter lib amb c t contrast subjects mean_scores =
     (if \<not> list_all (\<lambda>r. length r = n_freq_windows t) mean_scores
         \<or> (mean_scores = [] \<and> 0 < n_freq_windows t)
      then Inl ValueError
      else
        let cols = columns (n_freq_windows t) mean_scores;
            rng = default_rng lib amb (random_state c);
            boots = boot_loop lib (n_boot c) (length subjects) rng cols
        in Inr \<lparr>cond_1 = fst contrast, cond_2 = snd contrast, stats_times = times t,
                N = length subjects,
                mean = map np_nanmean cols,
                mean_min = map np_min cols,
                mean_max = map np_max cols,
                mean_se = map fst boots,
                mean_ci_lower = map (fst \<circ> snd) boots,
                mean_ci_upper = map (snd \<circ> snd) boots\<rparr>)"

subsection \<open>\<^verbatim>\<open>group_analysis\<close>\<close>

definition chance :: real where
  "chance = 1 / 2"

text \<open>
  \<^verbatim>\<open>p_clust[cl] = p\<close> with a boolean mask: the mask has the shape of the grid, else
  NumPy raises \<^verbatim>\<open>IndexError\<close>.
\<close>

definition mask_assign :: "real list \<Rightarrow> bool list \<Rightarrow> real \<Rightarrow> exn + real list" where
  "mask_assign grid cl p =
     (if length cl \<noteq> length grid then Inl IndexError
      else Inr (map2 (\<lambda>m v. if m then p else v) cl grid))"

fun fill_clusters :: "real list \<Rightarrow> (bool list \<times> real) list \<Rightarrow> exn + real list" where
  "fill_clusters grid [] = Inr grid"
| "fill_clusters grid ((cl, p) # rest) =
     (case mask_assign grid cl p of
        Inl e \<Rightarrow> Inl e
      | Inr grid' \<Rightarrow> fill_clusters grid' rest)"

definition significance :: "cfg \<Rightarrow> real list \<Rightarrow> log_record" where
  "significance c p_values =
     (if length p_values = 0 \<or> Min (set p_values) > cluster_stats_alpha c
      then (INFO, NotSignificant)
      else (INFO, SeemsSignificant))"

record group_result =
  freq_scores_mean :: "npfloat list"
  score_stats :: contrast_score_stats
  all_tf_scores :: "npfloat list"
  t_values :: "npfloat list"
  p_values_uncorrected :: "npfloat list"
  t_clust :: "npfloat list"
  clusters :: "bool list list"
  cluster_p_values :: "real list"
  p_clust :: "real list"

text \<open>
  The two loaders read the persisted \<^verbatim>\<open>freq_scores\<close> and \<^verbatim>\<open>tf_scores\<close>. The early return
  gives no result. The permutation test is called without a seed, so it is given NumPy's
  global generator. Figures and the report are not modelled.
\<close>

definition group_analysis ::
  "'g stats_library \<Rightarrow> 'g ambient \<Rightarrow> loader \<Rightarrow> loader \<Rightarrow> cfg \<Rightarrow> tf \<Rightarrow> string list
     \<Rightarrow> session list \<Rightarrow> contrast \<Rightarrow> exn + log_record list \<times> group_result option" where
  "group_analysis lib amb load_freq load_tf c t subjects sessions contrast =
     (if length subjects < 2
      then Inr ([(INFO, RunningGroupAnalysis), (WARNING, JustOneSubject)], None)
      else
        let (lg1, all_freq_scores) =
              load_and_stack load_freq subjects sessions [n_freq_windows t];
            freq_scores = np_nanmean_axis0 (n_freq_windows t) all_freq_scores
        in case compute_conf_inter lib amb c t contrast subjects all_freq_scores of
             Inl e \<Rightarrow> Inl e
           | Inr stats \<Rightarrow>
               let grid = [n_freq_windows t, n_time_windows t];
                   (lg2, tf_mean) = load_and_average load_tf subjects sessions grid;
                   (lg3, X0) = load_and_stack load_tf subjects sessions grid;
                   X = map (map (\<lambda>v. float_sub v chance)) X0;
                   (t0, p0) = ttest_1samp lib X;
                   threshold = t_ppf lib (1 - cluster_t_dist_alpha_thres c)
                                 (int (length subjects) - 1);
                   (tc, cls, pvs) = permutation_cluster_1samp_test lib (global_rng amb) X
                                      threshold (n_permutations c)
               in case fill_clusters (replicate (n_freq_windows t * n_time_windows t) 1)
                         (zip cls pvs) of
                    Inl e \<Rightarrow> Inl e
                  | Inr pc \<Rightarrow>
                      Inr ((INFO, RunningGroupAnalysis) # lg1 @ lg2 @ lg3 @
                             [(INFO, PermutationsDone), (INFO, FoundClusters pvs),
                              significance c pvs],
                           Some \<lparr>freq_scores_mean = freq_scores, score_stats = stats,
                                 all_tf_scores = tf_mean, t_values = t0,
                                 p_values_uncorrected = p0, t_clust = tc, clusters = cls,
                                 cluster_p_values = pvs, p_clust = pc\<rparr>))"

subsection \<open>Predicates on the record of calls\<close>

fun is_fit :: "('x, 'b) action \<Rightarrow> bool" where
  "is_fit (PcaFitTransform r X) = True"
| "is_fit a = False"

fun is_decimate :: "('x, 'b) action \<Rightarrow> bool" where
  "is_decimate (Decimate k) = True"
| "is_decimate a = False"

definition calls_of :: "exn + ('x, 'b) action list \<times> score_artifact \<Rightarrow> ('x, 'b) action list" where
  "calls_of r = (case r of Inl e \<Rightarrow> [] | Inr (tr, art) \<Rightarrow> tr)"

subsection \<open>A symbolic instance of the library\<close>

text \<open>
  Trial data as the term of the operations applied to the raw recording, and a PCA basis
  as its rank and the data it was fitted on: the calls of a task can then be read off.
\<close>

datatype sym =
    Raw
  | Decimated int sym
  | Picked bool sym
  | Selected "bool list" sym
  | Filtered real real sym
  | Cropped real real sym
  | Projected nat sym sym

definition sym_library :: "(sym, nat \<times> sym) library" where
  "sym_library =
     \<lparr>lib_decimate = Decimated, lib_pick_types = Picked, lib_select = Selected,
      lib_filter = Filtered, lib_crop = Cropped,
      lib_compute_rank = (\<lambda>X. [(''mag'', 102), (''grad'', 64)]),
      pca_fit = Pair,
      pca_apply = (\<lambda>b X. Projected (fst b) (snd b) X),
      cross_val_score = (\<lambda>X y. [Fin (1 / 2), Fin (1 / 2)])\<rparr>"

definition faces_event_id :: "string \<Rightarrow> int list" where
  "faces_event_id name =
     (if name = ''face'' then [3, 4]
      else if name = ''face/famous'' then [3]
      else if name = ''scrambled'' then [5]
      else [])"

definition faces_epochs :: "sym epochs" where
  "faces_epochs =
     \<lparr>events = [3, 4, 3, 5], event_id = faces_event_id, sfreq = 250, tmin = 0, tmax = 1,
      signal = Raw\<rparr>"

definition overlap_epochs :: "sym epochs" where
  "overlap_epochs =
     \<lparr>events = [3, 4, 3], event_id = faces_event_id, sfreq = 250, tmin = 0, tmax = 1,
      signal = Raw\<rparr>"

definition quick_cfg :: cfg where
  "quick_cfg =
     \<lparr>datatype_meg = True, csp_quick = True, random_state = Some 42, n_boot = 2,
      n_permutations = 4, cluster_t_dist_alpha_thres = 1 / 20, cluster_stats_alpha = 1 / 20\<rparr>"

definition two_band_tf :: tf where
  "two_band_tf = \<lparr>freqs = [8, 20, 40], times = [0, 1]\<rparr>"

definition one_band_tf :: tf where
  "one_band_tf = \<lparr>freqs = [8, 40], times = [0, 1]\<rparr>"

definition faces_band :: sym where
  "faces_band =
     Filtered 8 40 (Selected [True, True, True, False] (Picked True (Decimated 2 Raw)))"

subsection \<open>A small instance of the statistics library and of the persisted scores\<close>

text \<open>
  A generator state is a number. Every draw of a resample takes the first entry of the
  column when the state is even and the last when it is odd, and the state moves on by
  one; the permutation test reports one cluster over the whole grid, with a p-value that
  depends on the state of the generator it was given.
\<close>

definition toy_stats :: "nat stats_library" where
  "toy_stats =
     \<lparr>seeded_rng = (\<lambda>s. nat s),
      rng_choice =
        (\<lambda>g col nb n. (replicate nb (replicate n (if even g then hd col else last col)), g + 1)),
      ttest_1samp = (\<lambda>X. ([], [])),
      t_ppf = (\<lambda>q df. 2),
      permutation_cluster_1samp_test =
        (\<lambda>g X threshold n. ([], [[True]], [if even g then 1 / 100 else 1 / 2]))\<rparr>"

definition two_subjects :: "string list" where
  "two_subjects = [''01'', ''02'']"


definition no_session :: "session list" where
  "no_session = [None]"

definition toy_freq_files :: loader where
  "toy_freq_files sub ses =
     (if sub = ''01'' \<or> sub = ''03'' then Some \<lparr>arr_shape = [1], arr_data = [Fin 1]\<rparr>
      else if sub = ''02'' \<or> sub = ''04'' then Some \<lparr>arr_shape = [1], arr_data = [Fin 0]\<rparr>
      else None)"

definition toy_tf_files :: loader where
  "toy_tf_files sub ses =
     (if sub = ''01'' \<or> sub = ''03'' then Some \<lparr>arr_shape = [1, 1], arr_data = [Fin 1]\<rparr>
      else if sub = ''02'' \<or> sub = ''04'' then Some \<lparr>arr_shape = [1, 1], arr_data = [Fin 0]\<rparr>
      else None)"

definition ambient_even :: "nat ambient" where
  "ambient_even = \<lparr>os_entropy = 0, global_rng = 0\<rparr>"

definition ambient_odd :: "nat ambient" where
  "ambient_odd = \<lparr>os_entropy = 0, global_rng = 1\<rparr>"

definition toy_stats_result :: contrast_score_stats where
  "toy_stats_result =
     \<lparr>cond_1 = ''face'', cond_2 = ''scrambled'', stats_times = [0, 1], N = 2,
      mean = [Fin (1 / 2)], mean_min = [Fin 0], mean_max = [Fin 1],
      mean_se = [Fin 0], mean_ci_lower = [Fin 1], mean_ci_upper = [Fin 1]\<rparr>"

definition toy_group_result :: "real \<Rightarrow> group_result" where
  "toy_group_result p =
     \<lparr>freq_scores_mean = [Fin (1 / 2)], score_stats = toy_stats_result,
      all_tf_scores = [Fin (1 / 2)], t_values = [], p_values_uncorrected = [], t_clust = [],
      clusters = [[True]], cluster_p_values = [p], p_clust = [p]\<rparr>"






section \<open>Properties\<close>

subsection \<open>Label derivation\<close>

lemma label_loop_labels:
  "snd (label_loop c0 c1 ys) =
     map (\<lambda>y. if y \<in> c0 \<and> y \<in> c1 then y
              else if y \<in> c0 then 0 else if y \<in> c1 then 1 else y) ys"
  by (induction ys) (auto split: prod.splits)

lemma label_loop_log:
  "fst (label_loop c0 c1 ys) =
     map (\<lambda>y. (CRITICAL, if y \<in> c0 then EventInBothSets y else EventInNoSet y))
       (filter (\<lambda>y. (y \<in> c0) = (y \<in> c1)) ys)"
  by (induction ys) (auto split: prod.splits)

text \<open>
  Where each trial's event code is in exactly one of the two condition sets, there is one
  label per trial, in trial order, 0 for the first set and 1 for the second.
\<close>

lemma prepare_labels_binary_on_partition:
  "length (snd (prepare_labels ep c)) = length (events ep) \<and>
   (\<forall>i < length (events ep).
      (events ep ! i \<in> set (selected ep (fst c)) \<and> events ep ! i \<notin> set (selected ep (snd c))
         \<longrightarrow> snd (prepare_labels ep c) ! i = 0) \<and>
      (events ep ! i \<notin> set (selected ep (fst c)) \<and> events ep ! i \<in> set (selected ep (snd c))
         \<longrightarrow> snd (prepare_labels ep c) ! i = 1)) \<and>
   ((\<forall>e \<in> set (events ep). (e \<in> set (selected ep (fst c))) \<noteq> (e \<in> set (selected ep (snd c))))
      \<longrightarrow> set (snd (prepare_labels ep c)) \<subseteq> {0, 1})"
  unfolding prepare_labels_def Let_def label_loop_labels
  by auto

text \<open>
  Claim C7: for all contrasts and trial sets, label derivation returns one label per trial
  in the original trial order, and every label is exactly 0 or 1. The docstring of
  \<^verbatim>\<open>prepare_labels\<close> promises the same (a boolean array of labels, for epochs that
  contain only events of the contrast). The code does not keep it: with the trials 3, 4, 3,
  all of them events of the contrast, and the code 3 selected by both conditions, the two
  trials with code 3 keep the label 3.
\<close>

theorem prepare_labels_overlap_not_binary:
  "prepare_labels overlap_epochs (''face'', ''face/famous'') =
     ([(CRITICAL, EventInBothSets 3), (CRITICAL, EventInBothSets 3)], [3, 0, 3])"
  by (simp add: prepare_labels_def overlap_epochs_def selected_def faces_event_id_def)

subsection \<open>The calls of a per-subject task\<close>

lemma time_loop_calls_Cons:
  "fst (time_loop lib pca Xf y band (w # ws)) =
     [Logged (INFO, WindowInfo band w), PcaTransform pca (lib_crop lib (fst w) (snd w) Xf),
      CrossValScore (pca_apply lib pca (lib_crop lib (fst w) (snd w) Xf)) y,
      CspFit (lib_crop lib (fst w) (snd w) Xf) y]
     @ fst (time_loop lib pca Xf y band ws)"
  by (cases w) (simp add: Let_def case_prod_unfold)

lemma freq_loop_calls_Cons:
  "fst (freq_loop lib c rank ep contrast tws (band # fws)) =
     (let p = prepare_epochs_and_y lib c ep contrast (fst band) (snd band);
          X = signal (fst (snd p)); y = snd (snd p); pca = pca_fit lib rank X
      in map Logged (fst p) @
         [PcaFitTransform rank X, CrossValScore (pca_apply lib pca X) y] @
         fst (time_loop lib pca X y band tws) @
         fst (freq_loop lib c rank ep contrast tws fws))"
  by (cases band) (simp add: Let_def case_prod_unfold)

lemma time_loop_no_fit: "filter is_fit (fst (time_loop lib pca Xf y band ws)) = []"
  by (induction ws) (simp_all add: time_loop_calls_Cons)

lemma time_loop_no_decimate: "filter is_decimate (fst (time_loop lib pca Xf y band ws)) = []"
  by (induction ws) (simp_all add: time_loop_calls_Cons)

lemma time_loop_transform:
  "PcaTransform b X \<in> set (fst (time_loop lib pca Xf y band ws)) \<Longrightarrow>
     b = pca \<and> (\<exists>w \<in> set ws. X = lib_crop lib (fst w) (snd w) Xf)"
  by (induction ws) (auto simp: time_loop_calls_Cons)

lemma time_loop_fit_mem: "PcaFitTransform r X \<notin> set (fst (time_loop lib pca Xf y band ws))"
  by (induction ws) (auto simp: time_loop_calls_Cons)

lemma filter_fit_logged: "filter is_fit (map Logged lg) = []"
  by (induction lg) auto

lemma filter_decimate_logged: "filter is_decimate (map Logged lg) = []"
  by (induction lg) auto

lemma freq_loop_fit_count:
  "length (filter is_fit (fst (freq_loop lib c rank ep contrast tws fws))) = length fws"
  by (induction fws)
     (simp_all add: freq_loop_calls_Cons Let_def time_loop_no_fit filter_fit_logged)

lemma freq_loop_no_decimate:
  "filter is_decimate (fst (freq_loop lib c rank ep contrast tws fws)) = []"
  by (induction fws)
     (simp_all add: freq_loop_calls_Cons Let_def time_loop_no_decimate filter_decimate_logged)

lemma freq_loop_fit_mem:
  "PcaFitTransform r Xf \<in> set (fst (freq_loop lib c rank ep contrast tws fws)) \<Longrightarrow>
     r = rank \<and>
     (\<exists>band \<in> set fws.
        Xf = signal (fst (snd (prepare_epochs_and_y lib c ep contrast (fst band) (snd band)))))"
  by (induction fws) (auto simp: freq_loop_calls_Cons Let_def time_loop_fit_mem)

lemma freq_loop_transform_mem:
  "PcaTransform b X \<in> set (fst (freq_loop lib c rank ep contrast tws fws)) \<Longrightarrow>
     \<exists>Xf w. PcaFitTransform rank Xf \<in> set (fst (freq_loop lib c rank ep contrast tws fws)) \<and>
            b = pca_fit lib rank Xf \<and> w \<in> set tws \<and> X = lib_crop lib (fst w) (snd w) Xf"
proof (induction fws)
  case Nil
  then show ?case by simp
next
  case (Cons band fws)
  let ?p = "prepare_epochs_and_y lib c ep contrast (fst band) (snd band)"
  let ?X = "signal (fst (snd ?p))"
  let ?tl = "time_loop lib (pca_fit lib rank ?X) ?X (snd (snd ?p)) band tws"
  let ?rest = "freq_loop lib c rank ep contrast tws fws"
  from Cons.prems have "PcaTransform b X \<in> set (fst ?tl) \<or> PcaTransform b X \<in> set (fst ?rest)"
    by (auto simp: freq_loop_calls_Cons Let_def)
  then show ?case
  proof
    assume "PcaTransform b X \<in> set (fst ?tl)"
    from time_loop_transform [OF this]
    obtain w where "b = pca_fit lib rank ?X" "w \<in> set tws" "X = lib_crop lib (fst w) (snd w) ?X"
      by blast
    moreover have "PcaFitTransform rank ?X \<in> set (fst (freq_loop lib c rank ep contrast tws (band # fws)))"
      by (simp add: freq_loop_calls_Cons Let_def)
    ultimately show ?thesis by blast
  next
    assume "PcaTransform b X \<in> set (fst ?rest)"
    from Cons.IH [OF this]
    obtain Xf w where "PcaFitTransform rank Xf \<in> set (fst ?rest)" "b = pca_fit lib rank Xf"
      "w \<in> set tws" "X = lib_crop lib (fst w) (snd w) Xf" by blast
    moreover from this(1)
    have "PcaFitTransform rank Xf \<in> set (fst (freq_loop lib c rank ep contrast tws (band # fws)))"
      by (simp add: freq_loop_calls_Cons Let_def)
    ultimately show ?thesis by blast
  qed
qed

lemma length_freq_ranges: "length (freq_ranges t) = n_freq_windows t"
  by (simp add: freq_ranges_def n_freq_windows_def)

lemma choose_rank_logs: "\<exists>lg. fst (choose_rank rd) = map Logged lg"
proof (cases "100 < fold min (map snd (tl rd)) (snd (hd rd))")
  case True
  then have "fst (choose_rank rd :: ('a, 'b) action list \<times> nat) = map Logged [(INFO, ReducingTo100), (INFO, NewRank 100)]"
    by (simp add: choose_rank_def)
  then show ?thesis by blast
next
  case False
  then have "fst (choose_rank rd :: ('a, 'b) action list \<times> nat) = map Logged [(INFO, NewRank (fold min (map snd (tl rd)) (snd (hd rd))))]"
    by (simp add: choose_rank_def Let_def)
  then show ?thesis by blast
qed

lemma one_subject_decoding_calls:
  assumes "one_subject_decoding lib c t ep contrast = Inr (tr, art)"
  shows "\<exists>lg rank. tr = Logged (INFO, RunningDecoding) # fst (decimate_step lib c t ep) @ map Logged lg
            @ fst (freq_loop lib c rank (snd (decimate_step lib c t ep)) contrast
                     (time_ranges t) (freq_ranges t))"
proof -
  let ?rd = "lib_compute_rank lib (signal (snd (decimate_step lib c t ep)))"
  obtain lg :: "log_record list" where
    lg: "fst (choose_rank ?rd :: ('a, 'b) action list \<times> nat) = map Logged lg"
    using choose_rank_logs by blast
  from assms have "tr = Logged (INFO, RunningDecoding) # fst (decimate_step lib c t ep)
      @ fst (choose_rank ?rd :: ('a, 'b) action list \<times> nat)
      @ fst (freq_loop lib c (snd (choose_rank ?rd :: ('a, 'b) action list \<times> nat))
          (snd (decimate_step lib c t ep)) contrast (time_ranges t) (freq_ranges t))"
    by (auto simp: one_subject_decoding_def Let_def case_prod_unfold split: sum.splits if_splits)
  with lg show ?thesis by auto
qed

lemmas example_defs = one_subject_decoding_def check_csp_times_def two_band_tf_def one_band_tf_def faces_epochs_def
   quick_cfg_def sym_library_def decimate_step_def decimation_needed_def py_int_def choose_rank_def
   freq_ranges_def time_ranges_def prepare_epochs_and_y_def in_contrast_def faces_event_id_def prepare_labels_def selected_def
   Let_def np_mean_def np_std_def mean_real_def

subsection \<open>Claims on the per-subject task\<close>

lemma faces_one_band_run:
  "one_subject_decoding sym_library quick_cfg one_band_tf faces_epochs (''face'', ''face/famous'') =
     Inr ([Logged (INFO, RunningDecoding), Decimate 2, Logged (INFO, DecimatingBy 2),
           Logged (INFO, NewRank 64),
           Logged (CRITICAL, EventInBothSets 3), Logged (CRITICAL, EventInBothSets 3),
           PcaFitTransform 64
             faces_band,
           CrossValScore
             (Projected 64
               faces_band
               faces_band)
             [3, 0, 3],
           Logged (INFO, WindowInfo (8, 40) (0, 1)),
           PcaTransform
             (64, faces_band)
             (Cropped 0 1
               faces_band),
           CrossValScore
             (Projected 64
               faces_band
               (Cropped 0 1
                 faces_band))
             [3, 0, 3],
           CspFit
             (Cropped 0 1
               faces_band)
             [3, 0, 3]],
          \<lparr>freq_scores = [Fin (1 / 2)], freq_scores_std = [Fin 0], tf_scores = [[Fin (1 / 2)]]\<rparr>)"
  by (simp add: example_defs faces_band_def)

text \<open>
  Claim C1: if an event code occurs in both condition groups' event-code sets, or a trial's
  code, after the trials are restricted to the contrast's codes, matches neither set, label
  derivation fails and halts the task before any scoring, rather than merely logging. The
  comment above the selection by contrast in \<^verbatim>\<open>prepare_epochs_and_y\<close> says that a
  valid partition is ensured there, and the docstring of \<^verbatim>\<open>prepare_labels\<close> promises
  boolean labels. The code does not keep it: on the trials 3, 4, 3, 5 with the code 3
  selected by both conditions, the task logs two critical records, returns its score
  arrays without an error, and both scorings ran on the labels 3, 0, 3.
\<close>

theorem overlap_task_scored:
  "3 \<in> set (selected faces_epochs ''face'') \<and> 3 \<in> set (selected faces_epochs ''face/famous'') \<and>
   one_subject_decoding sym_library quick_cfg one_band_tf faces_epochs (''face'', ''face/famous'') =
     Inr ([Logged (INFO, RunningDecoding), Decimate 2, Logged (INFO, DecimatingBy 2),
           Logged (INFO, NewRank 64),
           Logged (CRITICAL, EventInBothSets 3), Logged (CRITICAL, EventInBothSets 3),
           PcaFitTransform 64 faces_band,
           CrossValScore (Projected 64 faces_band faces_band) [3, 0, 3],
           Logged (INFO, WindowInfo (8, 40) (0, 1)),
           PcaTransform (64, faces_band) (Cropped 0 1 faces_band),
           CrossValScore (Projected 64 faces_band (Cropped 0 1 faces_band)) [3, 0, 3],
           CspFit (Cropped 0 1 faces_band) [3, 0, 3]],
          \<lparr>freq_scores = [Fin (1 / 2)], freq_scores_std = [Fin 0], tf_scores = [[Fin (1 / 2)]]\<rparr>)"
  using faces_one_band_run
  by (simp add: selected_def faces_epochs_def faces_event_id_def)

text \<open>
  Claim C2, as amended. For every subject, the rank-r PCA basis is fitted exactly once per
  frequency window, on the un-windowed, band-pass filtered trial data of that window, and
  on every cropped time-window slice a basis fitted in this way on the un-cropped data of
  the slice is only applied, never refitted.
\<close>

theorem pca_fitted_once_per_frequency_window:
  assumes "one_subject_decoding lib cf t ep c = Inr (tr, art)"
  shows "length (filter is_fit tr) = n_freq_windows t \<and>
    (\<forall>r Xf. PcaFitTransform r Xf \<in> set tr \<longrightarrow>
       (\<exists>band \<in> set (freq_ranges t).
          Xf = signal (fst (snd (prepare_epochs_and_y lib cf (snd (decimate_step lib cf t ep)) c
                 (fst band) (snd band)))))) \<and>
    (\<forall>b X. PcaTransform b X \<in> set tr \<longrightarrow>
       (\<exists>r Xf w. PcaFitTransform r Xf \<in> set tr \<and> b = pca_fit lib r Xf \<and>
          w \<in> set (time_ranges t) \<and> X = lib_crop lib (fst w) (snd w) Xf))"
proof -
  let ?ep1 = "snd (decimate_step lib cf t ep)"
  from assms obtain lg rank where tr: "tr = Logged (INFO, RunningDecoding)
      # fst (decimate_step lib cf t ep) @ map Logged lg
      @ fst (freq_loop lib cf rank ?ep1 c (time_ranges t) (freq_ranges t))"
    using one_subject_decoding_calls by blast
  let ?loop = "fst (freq_loop lib cf rank ?ep1 c (time_ranges t) (freq_ranges t))"
  have dec: "fst (decimate_step lib cf t ep) = [] \<or>
      (\<exists>k. fst (decimate_step lib cf t ep) = [Decimate k, Logged (INFO, DecimatingBy k)])"
    by (simp add: decimate_step_def Let_def)
  have fits: "filter is_fit tr = filter is_fit ?loop"
    using dec unfolding tr by (auto simp: filter_fit_logged)
  have count: "length (filter is_fit tr) = n_freq_windows t"
    by (simp add: fits freq_loop_fit_count length_freq_ranges)
  have fit_in: "PcaFitTransform r Xf \<in> set tr \<longleftrightarrow> PcaFitTransform r Xf \<in> set ?loop" for r Xf
    using dec unfolding tr by auto
  have tra_in: "PcaTransform b X \<in> set tr \<longleftrightarrow> PcaTransform b X \<in> set ?loop" for b X
    using dec unfolding tr by auto
  have fitted: "\<forall>r Xf. PcaFitTransform r Xf \<in> set tr \<longrightarrow>
       (\<exists>band \<in> set (freq_ranges t).
          Xf = signal (fst (snd (prepare_epochs_and_y lib cf ?ep1 c (fst band) (snd band)))))"
  proof (intro allI impI)
    fix r Xf
    assume "PcaFitTransform r Xf \<in> set tr"
    then have "PcaFitTransform r Xf \<in> set ?loop" by (simp add: fit_in)
    from freq_loop_fit_mem [OF this]
    show "\<exists>band \<in> set (freq_ranges t).
          Xf = signal (fst (snd (prepare_epochs_and_y lib cf ?ep1 c (fst band) (snd band))))"
      by (rule conjunct2)
  qed
  have applied: "\<forall>b X. PcaTransform b X \<in> set tr \<longrightarrow>
       (\<exists>r Xf w. PcaFitTransform r Xf \<in> set tr \<and> b = pca_fit lib r Xf \<and>
          w \<in> set (time_ranges t) \<and> X = lib_crop lib (fst w) (snd w) Xf)"
  proof (intro allI impI)
    fix b X
    assume "PcaTransform b X \<in> set tr"
    then have "PcaTransform b X \<in> set ?loop" by (simp add: tra_in)
    from freq_loop_transform_mem [OF this]
    obtain Xf w where "PcaFitTransform rank Xf \<in> set ?loop" "b = pca_fit lib rank Xf"
      "w \<in> set (time_ranges t)" "X = lib_crop lib (fst w) (snd w) Xf" by blast
    then show "\<exists>r Xf w. PcaFitTransform r Xf \<in> set tr \<and> b = pca_fit lib r Xf \<and>
          w \<in> set (time_ranges t) \<and> X = lib_crop lib (fst w) (snd w) Xf"
      unfolding fit_in by blast
  qed
  show ?thesis
    by (rule conjI [OF count conjI [OF fitted applied]])
qed

theorem pca_fitted_once_per_frequency_window_witness:
  "length (filter is_fit (calls_of
      (one_subject_decoding sym_library quick_cfg one_band_tf faces_epochs (''face'', ''face/famous''))))
     = 1 \<and> n_freq_windows one_band_tf = 1"
proof -
  let ?run = "one_subject_decoding sym_library quick_cfg one_band_tf faces_epochs
                (''face'', ''face/famous'')"
  obtain tr art where run: "?run = Inr (tr, art)"
    using faces_one_band_run by blast
  from pca_fitted_once_per_frequency_window [OF run]
  have "length (filter is_fit tr) = n_freq_windows one_band_tf" by (rule conjunct1)
  moreover have "calls_of ?run = tr" by (simp add: calls_of_def run)
  moreover have "n_freq_windows one_band_tf = 1"
    by (simp add: n_freq_windows_def one_band_tf_def)
  ultimately show ?thesis by simp
qed

text \<open>With two frequency windows the basis is fitted twice, on different data.\<close>

theorem pca_fitted_per_band_counterexample:
  "filter is_fit (calls_of
      (one_subject_decoding sym_library quick_cfg two_band_tf faces_epochs (''face'', ''scrambled''))) =
     [PcaFitTransform 64
        (Filtered 8 20 (Selected [True, True, True, True] (Picked True (Decimated 2 Raw)))),
      PcaFitTransform 64
        (Filtered 20 40 (Selected [True, True, True, True] (Picked True (Decimated 2 Raw))))]"
  by (simp add: example_defs calls_of_def)

text \<open>
  Claim C3, as amended. For every subject, decimation is applied exactly when quick-mode
  is enabled and the ratio sampling_rate / (3 * max_frequency_of_interest) itself, before
  rounding down, is greater than 2; the factor is the floor of that ratio (so 2 or more);
  and it is applied once, before every call of the frequency/time grid loop.
\<close>

theorem decimation_once_before_grid_loop:
  assumes "one_subject_decoding lib cf t ep c = Inr (tr, art)"
  shows "\<exists>rest. filter is_decimate rest = [] \<and>
     tr = Logged (INFO, RunningDecoding) #
          (if csp_quick cf \<and> 2 < sfreq ep / (3 * last (freqs t))
           then [Decimate \<lfloor>sfreq ep / (3 * last (freqs t))\<rfloor>,
                 Logged (INFO, DecimatingBy \<lfloor>sfreq ep / (3 * last (freqs t))\<rfloor>)]
           else []) @ rest"
proof -
  let ?ep1 = "snd (decimate_step lib cf t ep)"
  from assms obtain lg rank where tr: "tr = Logged (INFO, RunningDecoding)
      # fst (decimate_step lib cf t ep) @ map Logged lg
      @ fst (freq_loop lib cf rank ?ep1 c (time_ranges t) (freq_ranges t))"
    using one_subject_decoding_calls by blast
  let ?rest = "map Logged lg @ fst (freq_loop lib cf rank ?ep1 c (time_ranges t) (freq_ranges t))"
  have rest: "filter is_decimate ?rest = []"
    by (simp add: filter_decimate_logged freq_loop_no_decimate)
  have dec: "fst (decimate_step lib cf t ep) =
      (if csp_quick cf \<and> 2 < sfreq ep / (3 * last (freqs t))
       then [Decimate \<lfloor>sfreq ep / (3 * last (freqs t))\<rfloor>,
             Logged (INFO, DecimatingBy \<lfloor>sfreq ep / (3 * last (freqs t))\<rfloor>)]
       else [])"
    by (auto simp: decimate_step_def decimation_needed_def py_int_def Let_def)
  have "tr = Logged (INFO, RunningDecoding) # fst (decimate_step lib cf t ep) @ ?rest"
    unfolding tr by simp
  with rest show ?thesis
    unfolding dec by blast
qed

theorem decimation_once_before_grid_loop_witness:
  "\<exists>rest. filter is_decimate rest = [] \<and>
     calls_of (one_subject_decoding sym_library quick_cfg one_band_tf faces_epochs
                 (''face'', ''face/famous'')) =
       Logged (INFO, RunningDecoding) # [Decimate 2, Logged (INFO, DecimatingBy 2)] @ rest"
proof -
  have ratio: "sfreq faces_epochs / (3 * last (freqs one_band_tf)) = 25 / 12"
    by (simp add: faces_epochs_def one_band_tf_def)
  have fl: "\<lfloor>25 / 12 :: real\<rfloor> = 2" by simp
  have q: "csp_quick quick_cfg" by (simp add: quick_cfg_def)
  from decimation_once_before_grid_loop [OF faces_one_band_run]
  show ?thesis
    unfolding ratio fl by (simp add: calls_of_def faces_one_band_run q)
qed

text \<open>
  At 250 Hz with 40 Hz as the last frequency edge the ratio is 25/12: its floor, 2, is not
  greater than 2, and the epochs are decimated by 2.
\<close>

theorem decimation_by_two_counterexample:
  "csp_quick quick_cfg \<and>
   \<lfloor>sfreq faces_epochs / (3 * last (freqs two_band_tf))\<rfloor> = 2 \<and>
   filter is_decimate (calls_of
      (one_subject_decoding sym_library quick_cfg two_band_tf faces_epochs (''face'', ''scrambled'')))
     = [Decimate 2]"
  by (simp add: example_defs calls_of_def)

subsection \<open>The group analysis\<close>









lemma replicate_two: "replicate 2 x = [x, x]"
  by (simp add: numeral_2_eq_2)

lemmas toy_defs = group_analysis_def compute_conf_inter_def load_and_stack_def load_and_average_def
  load_one_def toy_stats_def two_subjects_def no_session_def toy_freq_files_def toy_tf_files_def
  one_band_tf_def quick_cfg_def n_freq_windows_def n_time_windows_def columns_def default_rng_def
  np_nanmean_axis0_def np_nanmean_def np_mean_def np_std_def np_min_def np_max_def np_quantile_def
  interpolate_def mean_real_def mask_assign_def significance_def chance_def Let_def full_nan_def
  replicate_two ambient_even_def ambient_odd_def toy_stats_result_def toy_group_result_def


lemma toy_group_run_odd:
  "group_analysis toy_stats ambient_odd toy_freq_files toy_tf_files quick_cfg one_band_tf
     two_subjects no_session (''face'', ''scrambled'') =
   Inr ([(INFO, RunningGroupAnalysis), (INFO, PermutationsDone), (INFO, FoundClusters [1 / 2]),
         (INFO, NotSignificant)],
        Some (toy_group_result (1 / 2)))"
  by (simp add: toy_defs)







subsection \<open>Aggregation of the persisted scores\<close>








subsection \<open>Aggregated statistics and the bootstrap\<close>


lemma finite_values_no_nan: "NaN \<notin> set xs \<Longrightarrow> map Fin (finite_values xs) = xs"
  by (induction xs rule: finite_values.induct) auto

























subsection \<open>Runs with the same seed\<close>

text \<open>
  With a configured seed the bootstrap does not depend on what the run does not set. The
  clusters and their p-values are those of the permutation test on NumPy's global
  generator (the last fact of \<open>group_analysis_Some\<close>), which the seed does not reach.
\<close>

lemma bootstrap_ignores_ambient:
  "random_state c = Some s \<Longrightarrow>
     compute_conf_inter lib amb c t contrast subjects mean_scores =
     compute_conf_inter lib amb' c t contrast subjects mean_scores"
  by (simp add: compute_conf_inter_def default_rng_def)





end
